theory Spec2Isabelle
  imports Main
begin

section \<open>Exceptions\<close>

text \<open>
  Exceptions that reach the code under study at run time.  \<open>AngrError\<close> and
  \<open>SimError\<close> stand for an instance of the class of that name or of one of its
  subclasses: these are the two families named by the \<^verbatim>\<open>except\<close> clause of the
  matcher.  \<open>OtherError c\<close> is an instance of a class \<open>c\<close> outside both families
  (\<^verbatim>\<open>KeyError\<close>, \<^verbatim>\<open>MemoryError\<close>, an error of the lifter's own library, ...).
  The remaining constructors are the Python built-ins the modelled code can raise itself.
\<close>

datatype error =
    AngrError
  | SimError
  | AttributeError
  | IndexError
  | ZeroDivisionError
  | AssertionError
  | TypeError
  | OtherError string

text \<open>
  The error raised by \<^verbatim>\<open>_condition_to_lambda\<close> itself, with its message.  Its class
  is declared in \<^verbatim>\<open>errors.py\<close>; it is kept apart from \<open>error\<close> because nothing in
  the modelled code catches or tests it.
\<close>

datatype compile_error = AngrExplorationTechniqueError string


section \<open>The condition compiler \<^verbatim>\<open>ExplorationTechnique._condition_to_lambda\<close>\<close>

subsection \<open>Data\<close>

text \<open>
  \<^verbatim>\<open>self.project.engines.default_engine\<close> is only tested with
  \<^verbatim>\<open>isinstance(..., engines.SimEngineVEX)\<close>.
\<close>

datatype engine = SimEngineVEX | OtherEngine

record project =
  default_engine :: engine

text \<open>
  What the matcher reads of an execution state: \<^verbatim>\<open>state.addr\<close> and the outcome of
  \<^verbatim>\<open>state.block().instruction_addrs\<close>, which is either the list of instruction
  addresses of the current block or the exception raised on the way.
\<close>

record sim_state =
  addr :: int
  block :: "error + int list"

text \<open>
  The mutable environment a predicate runs in.  A technique is a reference \<open>'t\<close>; its
  attribute \<^verbatim>\<open>project\<close> is \<^verbatim>\<open>None\<close> after \<^verbatim>\<open>__init__\<close> and is set later by the
  manager, so the closure built by the compiler reads it at call time.  \<open>heap\<close> is
  everything else a user-supplied callable may read or write.
\<close>

record ('t, 'h) world =
  project :: "'t \<Rightarrow> project option"
  heap :: 'h

text \<open>What a predicate returns: a Python bool or a set of addresses.\<close>

datatype result = RBool bool | RSet "int set"

fun truthy :: "result \<Rightarrow> bool" where
  "truthy (RBool b) = b"
| "truthy (RSet s) = (s \<noteq> {})"

type_synonym ('t, 'h) predicate =
  "sim_state \<Rightarrow> ('t, 'h) world \<Rightarrow> (error + result) \<times> ('t, 'h) world"

text \<open>
  The shapes of the \<^verbatim>\<open>condition\<close> argument, one constructor per branch of the
  \<^verbatim>\<open>if\<close>/\<^verbatim>\<open>elif\<close> chain.  \<open>COther c\<close> is a value of none of the supported shapes, with
  \<open>c\<close> the text of \<^verbatim>\<open>condition.__class__\<close>.
\<close>

datatype ('t, 'h) condition =
    CNone
  | CInt int
  | CTuple "int list"
  | CSet "int set"
  | CList "int list"
  | CCallable "('t, 'h) predicate"
  | COther string

subsection \<open>The compiler\<close>

text \<open>The inner function \<^verbatim>\<open>condition_function\<close> of the tuple/set/list branch.\<close>

definition condition_function :: "'t \<Rightarrow> int set \<Rightarrow> ('t, 'h) predicate" where
  "condition_function self static_addrs state w =
     (if addr state \<in> static_addrs then (Inr (RSet {addr state}), w)
      else case project w self of
             None \<Rightarrow> (Inl AttributeError, w)
           | Some p \<Rightarrow>
               if default_engine p \<noteq> SimEngineVEX then (Inr (RBool False), w)
               else (case block state of
                       Inr instruction_addrs \<Rightarrow>
                         (Inr (RSet (static_addrs \<inter> set instruction_addrs)), w)
                     | Inl AngrError \<Rightarrow> (Inr (RBool False), w)
                     | Inl SimError \<Rightarrow> (Inr (RBool False), w)
                     | Inl e \<Rightarrow> (Inl e, w)))"

definition unable_to_convert :: "string \<Rightarrow> string" where
  "unable_to_convert cls =
     ''ExplorationTechnique is unable to convert given type ('' @ cls @
     '') to a callable condition function.''"

text \<open>
  The result is the pair \<^verbatim>\<open>(condition_function, static_addrs)\<close>; \<open>None\<close> in the second
  component is Python's \<^verbatim>\<open>None\<close>.  The integer branch calls the compiler again on the
  one-element tuple and does not pass \<^verbatim>\<open>default\<close> on, so the inner call runs with the
  parameter's default value \<^verbatim>\<open>False\<close>.
\<close>

function condition_to_lambda ::
  "'t \<Rightarrow> ('t, 'h) condition \<Rightarrow> result \<Rightarrow>
     compile_error + (('t, 'h) predicate \<times> int set option)" where
  "condition_to_lambda self CNone dflt = Inr (\<lambda>state w. (Inr dflt, w), Some {})"
| "condition_to_lambda self (CInt c) dflt = condition_to_lambda self (CTuple [c]) (RBool False)"
| "condition_to_lambda self (CTuple xs) dflt =
     Inr (condition_function self (set xs), Some (set xs))"
| "condition_to_lambda self (CSet s) dflt = Inr (condition_function self s, Some s)"
| "condition_to_lambda self (CList xs) dflt =
     Inr (condition_function self (set xs), Some (set xs))"
| "condition_to_lambda self (CCallable f) dflt = Inr (f, None)"
| "condition_to_lambda self (COther cls) dflt =
     Inl (AngrExplorationTechniqueError (unable_to_convert cls))"
  by pat_completeness auto
termination
  by (relation "measure (\<lambda>(self, c, dflt). case c of CInt _ \<Rightarrow> 1 | _ \<Rightarrow> 0)") auto

text \<open>The call \<^verbatim>\<open>self._condition_to_lambda(condition)\<close>, with \<^verbatim>\<open>default\<close> left out.\<close>

definition condition_to_lambda_1 ::
  "'t \<Rightarrow> ('t, 'h) condition \<Rightarrow> compile_error + (('t, 'h) predicate \<times> int set option)" where
  "condition_to_lambda_1 self condition = condition_to_lambda self condition (RBool False)"

text \<open>
  The address set of a tuple, set or list condition (\<^verbatim>\<open>set(condition)\<close>); the other
  shapes have none.
\<close>

fun sequence_addrs :: "('t, 'h) condition \<Rightarrow> int set option" where
  "sequence_addrs (CTuple xs) = Some (set xs)"
| "sequence_addrs (CSet s) = Some s"
| "sequence_addrs (CList xs) = Some (set xs)"
| "sequence_addrs _ = None"

subsection \<open>The compiler with its set object and the block call in the world\<close>

text \<open>
  In the source \<^verbatim>\<open>static_addrs\<close> is one set object, created by \<^verbatim>\<open>set(condition)\<close>: the
  closure reads it at every call, and the caller receives the very same object as the
  second component of the result.  \<^verbatim>\<open>state.block()\<close> is a call made at every check.  The
  definitions above take the set as a value and the outcome of the call as a field of the
  state, which is all that one application of a predicate depends on.  The definitions
  below embed the same function with both made explicit, for what holds across several
  applications: set objects live in the heap under a reference, and \<^verbatim>\<open>state.block()\<close> is a
  parameter \<open>state_block\<close> that runs in the world and may change it.
\<close>

record 'h objects =
  set_objects :: "nat \<Rightarrow> int set"
  next_ref :: nat
  user :: 'h

type_synonym ('t, 'h) block_call =
  "sim_state \<Rightarrow> ('t, 'h objects) world \<Rightarrow> (error + int list) \<times> ('t, 'h objects) world"

text \<open>\<^verbatim>\<open>set(xs)\<close>: a new set object; the result is its reference.\<close>

definition new_set :: "int set \<Rightarrow> ('t, 'h objects) world \<Rightarrow> nat \<times> ('t, 'h objects) world" where
  "new_set s w =
     (next_ref (heap w),
      w\<lparr>heap := (heap w)\<lparr>set_objects := (set_objects (heap w))(next_ref (heap w) := s),
                         next_ref := Suc (next_ref (heap w))\<rparr>\<rparr>)"

text \<open>\<^verbatim>\<open>s.discard(a)\<close> on the set object \<open>ref\<close>, as a caller holding the result can do.\<close>

definition discard :: "nat \<Rightarrow> int \<Rightarrow> ('t, 'h objects) world \<Rightarrow> ('t, 'h objects) world" where
  "discard ref a w =
     w\<lparr>heap := (heap w)\<lparr>set_objects :=
                           (set_objects (heap w))(ref := set_objects (heap w) ref - {a})\<rparr>\<rparr>"

text \<open>
  \<^verbatim>\<open>condition_function\<close> again.  In line 151 the block is fetched before
  \<^verbatim>\<open>intersection\<close> runs, so the set is read in the world the call has left.
\<close>

definition condition_function_obj ::
  "('t, 'h) block_call \<Rightarrow> 't \<Rightarrow> nat \<Rightarrow> ('t, 'h objects) predicate" where
  "condition_function_obj state_block self static_addrs state w =
     (if addr state \<in> set_objects (heap w) static_addrs then (Inr (RSet {addr state}), w)
      else case project w self of
             None \<Rightarrow> (Inl AttributeError, w)
           | Some p \<Rightarrow>
               if default_engine p \<noteq> SimEngineVEX then (Inr (RBool False), w)
               else (case state_block state w of
                       (Inr instruction_addrs, w') \<Rightarrow>
                         (Inr (RSet (set_objects (heap w') static_addrs
                                      \<inter> set instruction_addrs)), w')
                     | (Inl AngrError, w') \<Rightarrow> (Inr (RBool False), w')
                     | (Inl SimError, w') \<Rightarrow> (Inr (RBool False), w')
                     | (Inl e, w') \<Rightarrow> (Inl e, w')))"

text \<open>The tuple/set/list branch: the new set object, and the closure over its reference.\<close>

definition sequence_to_lambda_obj ::
  "('t, 'h) block_call \<Rightarrow> 't \<Rightarrow> int set \<Rightarrow> ('t, 'h objects) world \<Rightarrow>
     (compile_error + (('t, 'h objects) predicate \<times> nat option)) \<times> ('t, 'h objects) world" where
  "sequence_to_lambda_obj state_block self s w =
     (case new_set s w of
        (static_addrs, w') \<Rightarrow>
          (Inr (condition_function_obj state_block self static_addrs, Some static_addrs), w'))"

function condition_to_lambda_obj ::
  "('t, 'h) block_call \<Rightarrow> 't \<Rightarrow> ('t, 'h objects) condition \<Rightarrow> result \<Rightarrow>
     ('t, 'h objects) world \<Rightarrow>
     (compile_error + (('t, 'h objects) predicate \<times> nat option)) \<times> ('t, 'h objects) world" where
  "condition_to_lambda_obj state_block self CNone dflt w =
     (case new_set {} w of
        (static_addrs, w') \<Rightarrow> (Inr (\<lambda>state v. (Inr dflt, v), Some static_addrs), w'))"
| "condition_to_lambda_obj state_block self (CInt c) dflt w =
     condition_to_lambda_obj state_block self (CTuple [c]) (RBool False) w"
| "condition_to_lambda_obj state_block self (CTuple xs) dflt w =
     sequence_to_lambda_obj state_block self (set xs) w"
| "condition_to_lambda_obj state_block self (CSet s) dflt w =
     sequence_to_lambda_obj state_block self s w"
| "condition_to_lambda_obj state_block self (CList xs) dflt w =
     sequence_to_lambda_obj state_block self (set xs) w"
| "condition_to_lambda_obj state_block self (CCallable f) dflt w = (Inr (f, None), w)"
| "condition_to_lambda_obj state_block self (COther cls) dflt w =
     (Inl (AngrExplorationTechniqueError (unable_to_convert cls)), w)"
  by pat_completeness auto
termination
  by (relation "measure (\<lambda>(b, self, c, dflt, w). case c of CInt _ \<Rightarrow> 1 | _ \<Rightarrow> 0)") auto

text \<open>A \<^verbatim>\<open>state.block()\<close> that only reads the state: its outcome is the field \<open>block\<close>.\<close>

definition field_block :: "('t, 'h) block_call" where
  "field_block state w = (block state, w)"



section \<open>The compatibility layer \<^verbatim>\<open>ExplorationTechniqueMeta\<close>\<close>

subsection \<open>Function objects and the manager\<close>

text \<open>
  A function object as \<^verbatim>\<open>inspect.getargspec\<close> sees it: the names of its positional
  parameters (\<^verbatim>\<open>.args\<close>), whether \<^verbatim>\<open>.defaults\<close> is a non-empty tuple, and what
  calling it does.
\<close>

record 'c pyfunc =
  argnames :: "string list"
  has_defaults :: bool
  call :: 'c

text \<open>
  The two default hooks of the simulation manager that the wrappers fall back to.  A hook
  runs in a world \<open>'w\<close> and returns the new world with its outcome; the outcome \<open>None\<close>
  is Python's \<^verbatim>\<open>None\<close>.  \<open>'f\<close> is the type of the callbacks \<^verbatim>\<open>filter_func\<close> and
  \<^verbatim>\<open>successor_func\<close> (\<open>None\<close> when not supplied), \<open>'kw\<close> that of \<^verbatim>\<open>**kwargs\<close>.
\<close>

record ('f, 'kw, 'r, 'ss, 'w) simgr =
  simgr_filter :: "sim_state \<Rightarrow> 'f option \<Rightarrow> 'w \<Rightarrow> (error + 'r option) \<times> 'w"
  simgr_step_state :: "sim_state \<Rightarrow> 'f option \<Rightarrow> 'kw \<Rightarrow> 'w \<Rightarrow> (error + 'ss option) \<times> 'w"

text \<open>
  \<^verbatim>\<open>step(self, simgr, stash, **kwargs)\<close>: the stash is \<open>None\<close> when the caller leaves
  it out.
\<close>

type_synonym ('t, 'f, 'kw, 'r, 'ss, 'w) step_impl =
  "'t \<Rightarrow> ('f, 'kw, 'r, 'ss, 'w) simgr \<Rightarrow> string option \<Rightarrow> 'kw \<Rightarrow> 'w \<Rightarrow>
     (error + ('f, 'kw, 'r, 'ss, 'w) simgr) \<times> 'w"

text \<open>
  A \<^verbatim>\<open>filter\<close> override is written either in the old shape \<^verbatim>\<open>filter(self, state)\<close> or
  in the current one \<^verbatim>\<open>filter(self, simgr, state, filter_func=None)\<close>.
\<close>

datatype ('t, 'f, 'kw, 'r, 'ss, 'w) filter_impl =
    FilterLegacy "'t \<Rightarrow> sim_state \<Rightarrow> 'w \<Rightarrow> (error + 'r option) \<times> 'w"
  | FilterCurrent "'t \<Rightarrow> ('f, 'kw, 'r, 'ss, 'w) simgr \<Rightarrow> sim_state \<Rightarrow> 'f option \<Rightarrow> 'w \<Rightarrow>
      (error + 'r option) \<times> 'w"

text \<open>
  Likewise \<^verbatim>\<open>step_state(self, state, **kwargs)\<close> and
  \<^verbatim>\<open>step_state(self, simgr, state, successor_func=None, **kwargs)\<close>.
\<close>

datatype ('t, 'f, 'kw, 'r, 'ss, 'w) step_state_impl =
    StepStateLegacy "'t \<Rightarrow> sim_state \<Rightarrow> 'kw \<Rightarrow> 'w \<Rightarrow> (error + 'ss option) \<times> 'w"
  | StepStateCurrent "'t \<Rightarrow> ('f, 'kw, 'r, 'ss, 'w) simgr \<Rightarrow> sim_state \<Rightarrow> 'f option \<Rightarrow> 'kw \<Rightarrow> 'w \<Rightarrow>
      (error + 'ss option) \<times> 'w"

text \<open>
  The wrappers call the wrapped function as \<^verbatim>\<open>func(self, state)\<close> and
  \<^verbatim>\<open>step_state(self, state, **kwargs)\<close>.  A function of the current shape has more
  required positional parameters than that, and the call raises \<^verbatim>\<open>TypeError\<close>.
\<close>

fun call_filter_2 ::
  "('t, 'f, 'kw, 'r, 'ss, 'w) filter_impl \<Rightarrow> 't \<Rightarrow> sim_state \<Rightarrow> 'w \<Rightarrow> (error + 'r option) \<times> 'w" where
  "call_filter_2 (FilterLegacy f) self state w = f self state w"
| "call_filter_2 (FilterCurrent f) self state w = (Inl TypeError, w)"

fun call_step_state_2 ::
  "('t, 'f, 'kw, 'r, 'ss, 'w) step_state_impl \<Rightarrow> 't \<Rightarrow> sim_state \<Rightarrow> 'kw \<Rightarrow> 'w \<Rightarrow>
     (error + 'ss option) \<times> 'w" where
  "call_step_state_2 (StepStateLegacy f) self state kwargs w = f self state kwargs w"
| "call_step_state_2 (StepStateCurrent f) self state kwargs w = (Inl TypeError, w)"

subsection \<open>The three factories\<close>

definition step_factory ::
  "('t, 'f, 'kw, 'r, 'ss, 'w) step_impl pyfunc \<Rightarrow> ('t, 'f, 'kw, 'r, 'ss, 'w) step_impl pyfunc" where
  "step_factory step =
     \<lparr> argnames = [''self'', ''simgr'', ''stash''],
       has_defaults = True,
       call = (\<lambda>self simgr stash kwargs.
                 call step self simgr
                   (Some (case stash of None \<Rightarrow> ''active'' | Some n \<Rightarrow> n)) kwargs) \<rparr>"

definition filter_wrapped ::
  "('t, 'f, 'kw, 'r, 'ss, 'w) filter_impl \<Rightarrow> 't \<Rightarrow> ('f, 'kw, 'r, 'ss, 'w) simgr \<Rightarrow>
     sim_state \<Rightarrow> 'f option \<Rightarrow> 'w \<Rightarrow> (error + 'r option) \<times> 'w" where
  "filter_wrapped func self simgr state filter_func w =
     (case call_filter_2 func self state w of
        (Inl e, w') \<Rightarrow> (Inl e, w')
      | (Inr None, w') \<Rightarrow> simgr_filter simgr state filter_func w'
      | (Inr (Some result), w') \<Rightarrow> (Inr (Some result), w'))"

definition filter_factory ::
  "('t, 'f, 'kw, 'r, 'ss, 'w) filter_impl pyfunc \<Rightarrow> ('t, 'f, 'kw, 'r, 'ss, 'w) filter_impl pyfunc" where
  "filter_factory func =
     \<lparr> argnames = [''self'', ''simgr'', ''state'', ''filter_func''],
       has_defaults = True,
       call = FilterCurrent (filter_wrapped (call func)) \<rparr>"

definition step_state_wrapped ::
  "('t, 'f, 'kw, 'r, 'ss, 'w) step_state_impl \<Rightarrow> 't \<Rightarrow> ('f, 'kw, 'r, 'ss, 'w) simgr \<Rightarrow>
     sim_state \<Rightarrow> 'f option \<Rightarrow> 'kw \<Rightarrow> 'w \<Rightarrow> (error + 'ss option) \<times> 'w" where
  "step_state_wrapped step_state self simgr state successor_func kwargs w =
     (case call_step_state_2 step_state self state kwargs w of
        (Inl e, w') \<Rightarrow> (Inl e, w')
      | (Inr None, w') \<Rightarrow> simgr_step_state simgr state successor_func kwargs w'
      | (Inr (Some result), w') \<Rightarrow> (Inr (Some result), w'))"

definition step_state_factory ::
  "('t, 'f, 'kw, 'r, 'ss, 'w) step_state_impl pyfunc \<Rightarrow>
     ('t, 'f, 'kw, 'r, 'ss, 'w) step_state_impl pyfunc" where
  "step_state_factory step_state =
     \<lparr> argnames = [''self'', ''simgr'', ''state'', ''successor_func''],
       has_defaults = True,
       call = StepStateCurrent (step_state_wrapped (call step_state)) \<rparr>"

subsection \<open>\<^verbatim>\<open>ExplorationTechniqueMeta.__new__\<close>\<close>

text \<open>
  The entries of the class namespace \<^verbatim>\<open>attrs\<close> that \<^verbatim>\<open>__new__\<close> looks at; \<open>None\<close>
  is a key that is absent.  The result of \<^verbatim>\<open>__new__\<close> is the namespace the class is
  created with.
\<close>

record ('t, 'f, 'kw, 'r, 'ss, 'w) attrs =
  attr_step :: "('t, 'f, 'kw, 'r, 'ss, 'w) step_impl pyfunc option"
  attr_filter :: "('t, 'f, 'kw, 'r, 'ss, 'w) filter_impl pyfunc option"
  attr_step_state :: "('t, 'f, 'kw, 'r, 'ss, 'w) step_state_impl pyfunc option"

text \<open>\<^verbatim>\<open>inspect.getargspec(f).args[1]\<close>\<close>

definition args_1 :: "'c pyfunc \<Rightarrow> error + string" where
  "args_1 f = (if length (argnames f) < 2 then Inl IndexError else Inr (argnames f ! 1))"

definition new_step ::
  "('t, 'f, 'kw, 'r, 'ss, 'w) attrs \<Rightarrow> ('t, 'f, 'kw, 'r, 'ss, 'w) attrs" where
  "new_step attrs =
     (case attr_step attrs of
        None \<Rightarrow> attrs
      | Some f \<Rightarrow> if \<not> has_defaults f then attrs\<lparr>attr_step := Some (step_factory f)\<rparr> else attrs)"

definition new_filter ::
  "('t, 'f, 'kw, 'r, 'ss, 'w) attrs \<Rightarrow> error + ('t, 'f, 'kw, 'r, 'ss, 'w) attrs" where
  "new_filter attrs =
     (case attr_filter attrs of
        None \<Rightarrow> Inr attrs
      | Some f \<Rightarrow>
          (case args_1 f of
             Inl e \<Rightarrow> Inl e
           | Inr a \<Rightarrow>
               if a \<noteq> ''simgr'' then Inr (attrs\<lparr>attr_filter := Some (filter_factory f)\<rparr>)
               else Inr attrs))"

definition new_step_state ::
  "('t, 'f, 'kw, 'r, 'ss, 'w) attrs \<Rightarrow> error + ('t, 'f, 'kw, 'r, 'ss, 'w) attrs" where
  "new_step_state attrs =
     (case attr_step_state attrs of
        None \<Rightarrow> Inr attrs
      | Some f \<Rightarrow>
          (case args_1 f of
             Inl e \<Rightarrow> Inl e
           | Inr a \<Rightarrow>
               if a \<noteq> ''simgr'' then Inr (attrs\<lparr>attr_step_state := Some (step_state_factory f)\<rparr>)
               else Inr attrs))"

definition meta_new ::
  "string \<Rightarrow> ('t, 'f, 'kw, 'r, 'ss, 'w) attrs \<Rightarrow> error + ('t, 'f, 'kw, 'r, 'ss, 'w) attrs" where
  "meta_new name attrs =
     (if name \<noteq> ''ExplorationTechniqueCompat'' then
        (case new_filter (new_step attrs) of
           Inl e \<Rightarrow> Inl e
         | Inr attrs' \<Rightarrow> new_step_state attrs')
      else Inr attrs)"

subsection \<open>Creating a technique class\<close>

text \<open>
  \<^verbatim>\<open>type.__new__(cls, name, bases, attrs)\<close> creates the class with the namespace it is
  given.
\<close>

definition type_new ::
  "string \<Rightarrow> ('t, 'f, 'kw, 'r, 'ss, 'w) attrs \<Rightarrow> error + ('t, 'f, 'kw, 'r, 'ss, 'w) attrs" where
  "type_new name attrs = Inr attrs"

text \<open>
  The class statement of a technique, \<^verbatim>\<open>class DFS(ExplorationTechnique): ...\<close>.  The only
  place that connects \<^verbatim>\<open>ExplorationTechnique\<close> with \<^verbatim>\<open>ExplorationTechniqueMeta\<close> is
  line 55, which binds the name \<^verbatim>\<open>__metaclass__\<close> in the class body.  The module is
  Python 3 code, and the Python 3 class statement takes the metaclass from the
  \<^verbatim>\<open>metaclass\<close> keyword of the class header or from the bases; a name in the body is an
  ordinary class attribute.  The header at line 44 has neither, so the metaclass of
  \<^verbatim>\<open>ExplorationTechnique\<close> and of every subclass is \<^verbatim>\<open>type\<close>, and
  \<^verbatim>\<open>ExplorationTechniqueMeta.__new__\<close> is not called.
\<close>

definition class_statement ::
  "string \<Rightarrow> ('t, 'f, 'kw, 'r, 'ss, 'w) attrs \<Rightarrow> error + ('t, 'f, 'kw, 'r, 'ss, 'w) attrs" where
  "class_statement name attrs = type_new name attrs"

text \<open>
  A hook is called in the current shape, that of the default at line 78:
  \<^verbatim>\<open>technique.filter(simgr, state, filter_func=filter_func)\<close>.  A function of the old shape
  takes neither that many positional arguments nor the keyword, and the call raises
  \<^verbatim>\<open>TypeError\<close>.
\<close>

fun call_filter_4 ::
  "('t, 'f, 'kw, 'r, 'ss, 'w) filter_impl \<Rightarrow> 't \<Rightarrow> ('f, 'kw, 'r, 'ss, 'w) simgr \<Rightarrow>
     sim_state \<Rightarrow> 'f option \<Rightarrow> 'w \<Rightarrow> (error + 'r option) \<times> 'w" where
  "call_filter_4 (FilterLegacy f) self simgr state filter_func w = (Inl TypeError, w)"
| "call_filter_4 (FilterCurrent f) self simgr state filter_func w =
     f self simgr state filter_func w"


section \<open>The \<^verbatim>\<open>select\<close> procedure\<close>

subsection \<open>What the procedure calls\<close>

text \<open>
  \<^verbatim>\<open>run\<close> works on bit-vector expressions \<open>'bv\<close> and on a symbolic state \<open>'s\<close>
  through the solver, the memory and the expression library.  None of these is part of
  the two modelled files, so they are parameters: one field per operation the procedure
  calls, in the shape it calls it.  An operation that can raise returns a sum; one that can
  change the state returns the new state.
\<close>

datatype endness = Iend_LE | Iend_BE

record arch =
  bits :: int
  bytes :: int
  memory_endness :: endness

record ('s, 'bv) api =
  symbolic :: "'bv \<Rightarrow> bool"
  solver_eval :: "'s \<Rightarrow> 'bv \<Rightarrow> error + int"
  solver_BVV :: "int \<Rightarrow> int \<Rightarrow> 'bv"
  solver_BVS :: "string \<Rightarrow> int \<Rightarrow> 's \<Rightarrow> 'bv \<times> 's"
  memory_load :: "'bv \<Rightarrow> int \<Rightarrow> endness \<Rightarrow> 's \<Rightarrow> (error + 'bv) \<times> 's"
  memory_store :: "'bv \<Rightarrow> 'bv \<Rightarrow> endness \<Rightarrow> 's \<Rightarrow> (error + unit) \<times> 's"
  bv_add :: "'bv \<Rightarrow> int \<Rightarrow> 'bv"
  bv_index :: "'bv \<Rightarrow> int \<Rightarrow> error + 'bv"
  bv_slice :: "'bv \<Rightarrow> int option \<Rightarrow> int option \<Rightarrow> error + 'bv"
  bv_concat :: "'bv \<Rightarrow> 'bv \<Rightarrow> 'bv"

text \<open>
  The state the procedure runs in, with a log of the memory operations it has issued
  (address expression, and size or value), oldest first.
\<close>

datatype 'bv mem_event = Load 'bv int | Store 'bv 'bv

record ('s, 'bv) proc_state =
  sim :: 's
  mem_log :: "'bv mem_event list"

definition load ::
  "('s, 'bv) api \<Rightarrow> 'bv \<Rightarrow> int \<Rightarrow> endness \<Rightarrow> ('s, 'bv) proc_state \<Rightarrow>
     (error + 'bv) \<times> ('s, 'bv) proc_state" where
  "load api a n e st =
     (case memory_load api a n e (sim st) of
        (r, s') \<Rightarrow> (r, \<lparr> sim = s', mem_log = mem_log st @ [Load a n] \<rparr>))"

definition store ::
  "('s, 'bv) api \<Rightarrow> 'bv \<Rightarrow> 'bv \<Rightarrow> endness \<Rightarrow> ('s, 'bv) proc_state \<Rightarrow>
     (error + unit) \<times> ('s, 'bv) proc_state" where
  "store api a v e st =
     (case memory_store api a v e (sim st) of
        (r, s') \<Rightarrow> (r, \<lparr> sim = s', mem_log = mem_log st @ [Store a v] \<rparr>))"

definition BVS ::
  "('s, 'bv) api \<Rightarrow> string \<Rightarrow> int \<Rightarrow> ('s, 'bv) proc_state \<Rightarrow> 'bv \<times> ('s, 'bv) proc_state" where
  "BVS api name n st = (case solver_BVS api name n (sim st) of (v, s') \<Rightarrow> (v, st\<lparr>sim := s'\<rparr>))"

subsection \<open>Python lists and integer division\<close>

text \<open>\<^verbatim>\<open>xs[i]\<close> and \<^verbatim>\<open>xs[i] = v\<close>: a negative index counts from the end.\<close>

definition list_index :: "'a list \<Rightarrow> int \<Rightarrow> error + nat" where
  "list_index xs i =
     (if 0 \<le> i \<and> i < int (length xs) then Inr (nat i)
      else if i < 0 \<and> - int (length xs) \<le> i then Inr (nat (int (length xs) + i))
      else Inl IndexError)"

definition getitem :: "'a list \<Rightarrow> int \<Rightarrow> error + 'a" where
  "getitem xs i = (case list_index xs i of Inl e \<Rightarrow> Inl e | Inr j \<Rightarrow> Inr (xs ! j))"

definition setitem :: "'a list \<Rightarrow> int \<Rightarrow> 'a \<Rightarrow> error + 'a list" where
  "setitem xs i v = (case list_index xs i of Inl e \<Rightarrow> Inl e | Inr j \<Rightarrow> Inr (xs[j := v]))"

text \<open>\<^verbatim>\<open>a // b\<close> and \<^verbatim>\<open>a % b\<close> on Python integers: floor division, as \<open>div\<close> and \<open>mod\<close> on \<open>int\<close>.\<close>

definition floordiv :: "int \<Rightarrow> int \<Rightarrow> error + int" where
  "floordiv a b = (if b = 0 then Inl ZeroDivisionError else Inr (a div b))"

definition pymod :: "int \<Rightarrow> int \<Rightarrow> error + int" where
  "pymod a b = (if b = 0 then Inl ZeroDivisionError else Inr (a mod b))"

subsection \<open>\<^verbatim>\<open>select.run\<close>\<close>

text \<open>
  One \<^verbatim>\<open>assert not x.symbolic and self.state.solver.eval(x) == 0\<close>: \<^verbatim>\<open>and\<close> evaluates
  its right operand only when the left one is true.
\<close>

definition assert_null :: "('s, 'bv) api \<Rightarrow> 's \<Rightarrow> 'bv \<Rightarrow> error + unit" where
  "assert_null api s x =
     (if symbolic api x then Inl AssertionError
      else case solver_eval api s x of
             Inl e \<Rightarrow> Inl e
           | Inr v \<Rightarrow> if v = 0 then Inr () else Inl AssertionError)"

text \<open>The two assertions at the head of \<^verbatim>\<open>run\<close>.\<close>

definition run_asserts :: "('s, 'bv) api \<Rightarrow> 's \<Rightarrow> 'bv \<Rightarrow> 'bv \<Rightarrow> error + unit" where
  "run_asserts api s writefds exceptfds =
     (case assert_null api s writefds of
        Inl e \<Rightarrow> Inl e
      | Inr _ \<Rightarrow> assert_null api s exceptfds)"

text \<open>The first loop: load \<^verbatim>\<open>long_array_size\<close> words starting at \<^verbatim>\<open>readfds\<close>.\<close>

fun load_longs ::
  "('s, 'bv) api \<Rightarrow> arch \<Rightarrow> 'bv \<Rightarrow> int list \<Rightarrow> 'bv list \<Rightarrow> ('s, 'bv) proc_state \<Rightarrow>
     (error + 'bv list) \<times> ('s, 'bv) proc_state" where
  "load_longs api arch readfds [] long_array st = (Inr long_array, st)"
| "load_longs api arch readfds (offset # offsets) long_array st =
     (case load api (bv_add api readfds (offset * bytes arch)) (bytes arch)
             (memory_endness arch) st of
        (Inl e, st') \<Rightarrow> (Inl e, st')
      | (Inr long, st') \<Rightarrow> load_longs api arch readfds offsets (long_array @ [long]) st')"

text \<open>
  The body of the second loop for one \<^verbatim>\<open>i\<close>.  The replacement is built left to right:
  the upper slice, the fresh bit, their concatenation, the lower slice.
\<close>

definition set_bit ::
  "('s, 'bv) api \<Rightarrow> arch \<Rightarrow> int \<Rightarrow> 'bv list \<Rightarrow> ('s, 'bv) proc_state \<Rightarrow>
     (error + 'bv list) \<times> ('s, 'bv) proc_state" where
  "set_bit api arch i long_array st =
     (case floordiv i (bits arch) of Inl e \<Rightarrow> (Inl e, st) | Inr long_pos \<Rightarrow>
      case pymod i (bits arch) of Inl e \<Rightarrow> (Inl e, st) | Inr bit_offset \<Rightarrow>
      case getitem long_array long_pos of Inl e \<Rightarrow> (Inl e, st) | Inr long \<Rightarrow>
      case bv_index api long bit_offset of Inl e \<Rightarrow> (Inl e, st) | Inr bit0 \<Rightarrow>
      case (if symbolic api bit0 then Inr True
            else case solver_eval api (sim st) bit0 of
                   Inl e \<Rightarrow> Inl e | Inr v \<Rightarrow> Inr (v = 1)) of
        Inl e \<Rightarrow> (Inl e, st)
      | Inr False \<Rightarrow> (Inr long_array, st)
      | Inr True \<Rightarrow>
          (case bv_slice api long (Some (bits arch - 1)) (Some (bit_offset + 1)) of
             Inl e \<Rightarrow> (Inl e, st)
           | Inr upper \<Rightarrow>
               (case BVS api ''fd_state'' 1 st of
                  (fd_state, st') \<Rightarrow>
                    (case bv_slice api long (Some (bit_offset - 1)) None of
                       Inl e \<Rightarrow> (Inl e, st')
                     | Inr lower \<Rightarrow>
                         (case setitem long_array long_pos
                                 (bv_concat api (bv_concat api upper fd_state) lower) of
                            Inl e \<Rightarrow> (Inl e, st')
                          | Inr long_array' \<Rightarrow> (Inr long_array', st'))))))"

fun set_bits ::
  "('s, 'bv) api \<Rightarrow> arch \<Rightarrow> int list \<Rightarrow> 'bv list \<Rightarrow> ('s, 'bv) proc_state \<Rightarrow>
     (error + 'bv list) \<times> ('s, 'bv) proc_state" where
  "set_bits api arch [] long_array st = (Inr long_array, st)"
| "set_bits api arch (i # is) long_array st =
     (case set_bit api arch i long_array st of
        (Inl e, st') \<Rightarrow> (Inl e, st')
      | (Inr long_array', st') \<Rightarrow> set_bits api arch is long_array' st')"

text \<open>The third loop: write the words back.\<close>

fun store_longs ::
  "('s, 'bv) api \<Rightarrow> arch \<Rightarrow> 'bv \<Rightarrow> int list \<Rightarrow> 'bv list \<Rightarrow> ('s, 'bv) proc_state \<Rightarrow>
     (error + unit) \<times> ('s, 'bv) proc_state" where
  "store_longs api arch readfds [] long_array st = (Inr (), st)"
| "store_longs api arch readfds (offset # offsets) long_array st =
     (case getitem long_array offset of
        Inl e \<Rightarrow> (Inl e, st)
      | Inr long \<Rightarrow>
          (case store api (bv_add api readfds (offset * bytes arch)) long
                  (memory_endness arch) st of
             (Inl e, st') \<Rightarrow> (Inl e, st')
           | (Inr _, st') \<Rightarrow> store_longs api arch readfds offsets long_array st'))"

text \<open>Lines 41 and 42: the return value.\<close>

definition run_retval ::
  "('s, 'bv) api \<Rightarrow> ('s, 'bv) proc_state \<Rightarrow> 'bv \<times> ('s, 'bv) proc_state" where
  "run_retval api st =
     (case BVS api ''select_ret'' 31 st of
        (select_ret, st') \<Rightarrow> (bv_concat api (solver_BVV api 0 1) select_ret, st'))"

text \<open>Lines 15 to 42, what \<^verbatim>\<open>run\<close> does once both assertions have passed.\<close>

definition run_body ::
  "('s, 'bv) api \<Rightarrow> arch \<Rightarrow> 'bv \<Rightarrow> 'bv \<Rightarrow> ('s, 'bv) proc_state \<Rightarrow>
     (error + 'bv) \<times> ('s, 'bv) proc_state" where
  "run_body api arch nfds readfds st =
     (case solver_eval api (sim st) nfds of Inl e \<Rightarrow> (Inl e, st) | Inr nfds_v \<Rightarrow>
      case floordiv ((nfds_v - 1) + 7) (bits arch) of Inl e \<Rightarrow> (Inl e, st)
      | Inr long_array_size \<Rightarrow>
      case load_longs api arch readfds [0 .. long_array_size - 1] [] st of
        (Inl e, st1) \<Rightarrow> (Inl e, st1)
      | (Inr long_array, st1) \<Rightarrow>
      case set_bits api arch [0 .. nfds_v - 1 - 1] long_array st1 of
        (Inl e, st2) \<Rightarrow> (Inl e, st2)
      | (Inr long_array', st2) \<Rightarrow>
      case store_longs api arch readfds [0 .. long_array_size - 1] long_array' st2 of
        (Inl e, st3) \<Rightarrow> (Inl e, st3)
      | (Inr _, st3) \<Rightarrow>
      case run_retval api st3 of (retval, st4) \<Rightarrow> (Inr retval, st4))"

definition run ::
  "('s, 'bv) api \<Rightarrow> arch \<Rightarrow> 'bv \<Rightarrow> 'bv \<Rightarrow> 'bv \<Rightarrow> 'bv \<Rightarrow> 'bv \<Rightarrow> ('s, 'bv) proc_state \<Rightarrow>
     (error + 'bv) \<times> ('s, 'bv) proc_state" where
  "run api arch nfds readfds writefds exceptfds timeout st =
     (case run_asserts api (sim st) writefds exceptfds of
        Inl e \<Rightarrow> (Inl e, st)
      | Inr _ \<Rightarrow> run_body api arch nfds readfds st)"


section \<open>Concrete inputs\<close>

subsection \<open>For the condition compiler\<close>

text \<open>A world in which every technique has a project whose default engine is the VEX engine.\<close>

definition vex_world :: "(nat, unit) world" where
  "vex_world = \<lparr> project = (\<lambda>t. Some \<lparr> default_engine = SimEngineVEX \<rparr>), heap = () \<rparr>"

text \<open>A state at the head of a block of three instructions.\<close>

definition entry_state :: sim_state where
  "entry_state = \<lparr> addr = 0x400000, block = Inr [0x400000, 0x400004, 0x400008] \<rparr>"

text \<open>A state whose block cannot be fetched, the failure being a \<^verbatim>\<open>KeyError\<close>.\<close>

definition unmapped_state :: sim_state where
  "unmapped_state = \<lparr> addr = 0x400000, block = Inl (OtherError ''KeyError'') \<rparr>"



text \<open>
  A world with the VEX engine and no set object yet; the world after compiling the list
  \<^verbatim>\<open>[0x400000]\<close> in it, and the predicate that compilation returns.
\<close>

definition vex_objects :: "(nat, unit objects) world" where
  "vex_objects =
     \<lparr> project = (\<lambda>t. Some \<lparr> default_engine = SimEngineVEX \<rparr>),
       heap = \<lparr> set_objects = (\<lambda>r. {}), next_ref = 0, user = () \<rparr> \<rparr>"

definition entry_world :: "(nat, unit objects) world" where
  "entry_world = snd (new_set {0x400000} vex_objects)"

definition entry_matcher :: "(nat, unit objects) predicate" where
  "entry_matcher = condition_function_obj field_block 0 0"

text \<open>
  A \<^verbatim>\<open>state.block()\<close> that fails with a \<^verbatim>\<open>SimError\<close> on every other call, and a world
  with the VEX engine that holds the set \<open>{0x400004}\<close> under reference 0.
\<close>

definition flaky_block :: "(nat, bool) block_call" where
  "flaky_block state w =
     (if user (heap w) then Inr [0x400000, 0x400004, 0x400008] else Inl SimError,
      w\<lparr>heap := (heap w)\<lparr>user := \<not> user (heap w)\<rparr>\<rparr>)"

definition flaky_world :: "(nat, bool objects) world" where
  "flaky_world =
     \<lparr> project = (\<lambda>t. Some \<lparr> default_engine = SimEngineVEX \<rparr>),
       heap = \<lparr> set_objects = (\<lambda>r. if r = 0 then {0x400004} else {}), next_ref = 1,
                user = False \<rparr> \<rparr>"

subsection \<open>For the compatibility layer\<close>

text \<open>
  The world of these examples is the list of the hooks called so far.  \<open>goal_filter\<close> is
  an override in the old shape:
  \<^verbatim>\<open>def filter(self, state): return 'found' if state.addr == 0x400100 else None\<close>
\<close>

definition goal_filter ::
  "nat \<Rightarrow> sim_state \<Rightarrow> string list \<Rightarrow> (error + string option) \<times> string list" where
  "goal_filter self state w =
     (Inr (if addr state = 0x400100 then Some ''found'' else None), w @ [''filter''])"

definition legacy_filter :: "(nat, unit, unit, string, unit, string list) filter_impl pyfunc" where
  "legacy_filter =
     \<lparr> argnames = [''self'', ''state''], has_defaults = False, call = FilterLegacy goal_filter \<rparr>"

definition legacy_attrs :: "(nat, unit, unit, string, unit, string list) attrs" where
  "legacy_attrs = \<lparr> attr_step = None, attr_filter = Some legacy_filter, attr_step_state = None \<rparr>"

definition plain_simgr :: "(unit, unit, string, unit, string list) simgr" where
  "plain_simgr =
     \<lparr> simgr_filter = (\<lambda>state filter_func w. (Inr (Some ''active''), w @ [''simgr.filter''])),
       simgr_step_state =
         (\<lambda>state successor_func kwargs w. (Inr None, w @ [''simgr.step_state''])) \<rparr>"

subsection \<open>For the \<^verbatim>\<open>select\<close> procedure\<close>

text \<open>
  A small instance of the interface, to run the procedure on concrete calls: bit-vector
  expressions as trees, a solver that evaluates an expression with every symbol at zero, a
  memory that maps the value of an address to the word stored there and reads zero
  elsewhere, and indexing and slicing with the bounds \<open>[left : right]\<close>, where a negative
  bound counts from the length and a missing one is the top or the bottom bit.
\<close>

datatype bv = BVV int int | Sym string nat int | Concat bv bv | Extract int int bv | Add bv int

fun is_symbolic :: "bv \<Rightarrow> bool" where
  "is_symbolic (BVV v n) = False"
| "is_symbolic (Sym name k n) = True"
| "is_symbolic (Concat a b) = (is_symbolic a \<or> is_symbolic b)"
| "is_symbolic (Extract h l a) = is_symbolic a"
| "is_symbolic (Add a k) = is_symbolic a"

fun bv_length :: "bv \<Rightarrow> int" where
  "bv_length (BVV v n) = n"
| "bv_length (Sym name k n) = n"
| "bv_length (Concat a b) = bv_length a + bv_length b"
| "bv_length (Extract h l a) = h - l + 1"
| "bv_length (Add a k) = bv_length a"

fun bv_value :: "bv \<Rightarrow> int" where
  "bv_value (BVV v n) = v mod 2 ^ nat n"
| "bv_value (Sym name k n) = 0"
| "bv_value (Concat a b) = bv_value a * 2 ^ nat (bv_length b) + bv_value b"
| "bv_value (Extract h l a) = (bv_value a div 2 ^ nat l) mod 2 ^ nat (h - l + 1)"
| "bv_value (Add a k) = (bv_value a + k) mod 2 ^ nat (bv_length a)"

record tiny_state =
  fresh :: nat
  memory :: "(int \<times> bv) list"

definition tiny_slice :: "bv \<Rightarrow> int option \<Rightarrow> int option \<Rightarrow> error + bv" where
  "tiny_slice x start stop =
     (let left = (case start of
                    None \<Rightarrow> bv_length x - 1
                  | Some a \<Rightarrow> if a < 0 then bv_length x + a else a);
          right = (case stop of
                     None \<Rightarrow> 0
                   | Some b \<Rightarrow> if b < 0 then bv_length x + b else b)
      in if 0 \<le> right \<and> right \<le> left \<and> left < bv_length x then Inr (Extract left right x)
         else Inl (OtherError ''ClaripyOperationError''))"

definition tiny_api :: "(tiny_state, bv) api" where
  "tiny_api =
     \<lparr> symbolic = is_symbolic,
       solver_eval = (\<lambda>s x. Inr (bv_value x)),
       solver_BVV = BVV,
       solver_BVS = (\<lambda>name n s. (Sym name (fresh s) n, s\<lparr>fresh := Suc (fresh s)\<rparr>)),
       memory_load = (\<lambda>a n e s.
          (Inr (case map_of (memory s) (bv_value a) of
                  None \<Rightarrow> BVV 0 (8 * n)
                | Some v \<Rightarrow> v), s)),
       memory_store = (\<lambda>a v e s. (Inr (), s\<lparr>memory := (bv_value a, v) # memory s\<rparr>)),
       bv_add = Add,
       bv_index = (\<lambda>x i. tiny_slice x (Some i) (Some i)),
       bv_slice = tiny_slice,
       bv_concat = Concat \<rparr>"

definition x86 :: arch where
  "x86 = \<lparr> bits = 32, bytes = 4, memory_endness = Iend_LE \<rparr>"

definition tiny_start :: "(tiny_state, bv) proc_state" where
  "tiny_start = \<lparr> sim = \<lparr> fresh = 0, memory = [] \<rparr>, mem_log = [] \<rparr>"

section \<open>Properties of the condition compiler\<close>

text \<open>
  C1.  For a tuple, set or list condition with address set \<open>S\<close>, a state whose address is
  not in \<open>S\<close>, a project whose default engine is the VEX engine and a block that is fetched
  with instruction addresses \<open>instruction_addrs\<close>: the compiled predicate returns the set
  \<open>S \<inter> set instruction_addrs\<close>, which is truthy exactly when it is not empty, and leaves the
  world as it was.
\<close>

theorem matcher_block_intersection:
  assumes "sequence_addrs c = Some S"
    and "addr st \<notin> S"
    and "project w self = Some p" and "default_engine p = SimEngineVEX"
    and "block st = Inr instruction_addrs"
  shows "\<exists>pred. condition_to_lambda self c dflt = Inr (pred, Some S)
           \<and> pred st w = (Inr (RSet (S \<inter> set instruction_addrs)), w)
           \<and> (truthy (RSet (S \<inter> set instruction_addrs)) \<longleftrightarrow> S \<inter> set instruction_addrs \<noteq> {})"
  using assms by (cases c) (simp_all add: condition_function_def)

text \<open>
  The instance of the specification: \<open>S = {A, B}\<close>, a state at \<open>X\<close> whose block has the
  instruction addresses \<open>A\<close>, \<open>X\<close>, \<open>Y\<close>; the predicate returns \<open>{A}\<close>.
\<close>

theorem matcher_block_intersection_witness:
  "\<exists>pred. condition_to_lambda (0::nat) (CSet {0x400004, 0x400100}) (RBool False)
             = Inr (pred, Some {0x400004, 0x400100})
         \<and> pred \<lparr> addr = 0x400000, block = Inr [0x400004, 0x400000, 0x400008] \<rparr> vex_world
             = (Inr (RSet {0x400004}), vex_world)"
proof -
  have "{0x400004, 0x400100} \<inter> set [0x400004, 0x400000, 0x400008] = {0x400004 :: int}"
    by simp
  then show ?thesis
    using matcher_block_intersection
      [of "CSet {0x400004, 0x400100}" "{0x400004, 0x400100}"
          "\<lparr> addr = 0x400000, block = Inr [0x400004, 0x400000, 0x400008] \<rparr>"
          vex_world 0 "\<lparr> default_engine = SimEngineVEX \<rparr>"
          "[0x400004, 0x400000, 0x400008]" "RBool False"]
    by (simp add: vex_world_def)
qed

text \<open>
  C2, as stated, fails: the \<^verbatim>\<open>except\<close> clause names \<^verbatim>\<open>AngrError\<close> and \<^verbatim>\<open>SimError\<close>
  only.  When fetching the block raises a \<^verbatim>\<open>KeyError\<close>, the predicate compiled from the set
  condition \<open>{0x400100}\<close> raises it to its caller.
\<close>

theorem probe_error_propagates:
  "condition_to_lambda (0::nat) (CSet {0x400100}) (RBool False)
     = Inr (condition_function 0 {0x400100}, Some {0x400100})
   \<and> condition_function 0 {0x400100} unmapped_state vex_world
     = (Inl (OtherError ''KeyError''), vex_world)"
  by (simp add: condition_function_def unmapped_state_def vex_world_def)

text \<open>
  C2, amended.  For a tuple, set or list condition, a state whose address is not in the
  set and a project whose default engine is the VEX engine: when fetching the block raises
  an \<^verbatim>\<open>AngrError\<close> or a \<^verbatim>\<open>SimError\<close>, the predicate returns \<^verbatim>\<open>False\<close>, which is falsy,
  and nothing is raised; an exception of any other class is raised to the caller.
\<close>

theorem probe_angr_sim_error_caught:
  assumes "sequence_addrs c = Some S"
    and "addr st \<notin> S"
    and "project w self = Some p" and "default_engine p = SimEngineVEX"
    and "block st = Inl e"
  shows "\<exists>pred. condition_to_lambda self c dflt = Inr (pred, Some S)
           \<and> (e = AngrError \<or> e = SimError \<longrightarrow>
                 pred st w = (Inr (RBool False), w) \<and> \<not> truthy (RBool False))
           \<and> (e \<noteq> AngrError \<and> e \<noteq> SimError \<longrightarrow> pred st w = (Inl e, w))"
  using assms by (cases c; cases e) (simp_all add: condition_function_def)

theorem probe_angr_sim_error_caught_witness:
  "\<exists>pred. condition_to_lambda (0::nat) (CList [0x400100, 0x400200]) (RBool False)
             = Inr (pred, Some {0x400100, 0x400200})
         \<and> pred \<lparr> addr = 0x400000, block = Inl SimError \<rparr> vex_world
             = (Inr (RBool False), vex_world)"
  using probe_angr_sim_error_caught
    [of "CList [0x400100, 0x400200]" "{0x400100, 0x400200}"
        "\<lparr> addr = 0x400000, block = Inl SimError \<rparr>"
        vex_world 0 "\<lparr> default_engine = SimEngineVEX \<rparr>" SimError "RBool False"]
  by (simp add: vex_world_def)

text \<open>
  C4.  Compiling the integer \<open>a\<close> gives the same pair as compiling the set \<open>{a}\<close>, whatever
  the defaults passed; its address set is \<open>{a}\<close>, and on a state at \<open>a\<close> its predicate
  returns the set \<open>{a}\<close>, which is truthy.
\<close>

theorem int_condition_as_singleton:
  "condition_to_lambda self (CInt a) dflt = condition_to_lambda self (CSet {a}) dflt'
   \<and> (\<exists>pred. condition_to_lambda self (CInt a) dflt = Inr (pred, Some {a})
        \<and> (\<forall>st w. addr st = a \<longrightarrow> pred st w = (Inr (RSet {a}), w) \<and> truthy (RSet {a})))"
  by (simp add: condition_function_def)

theorem int_condition_as_singleton_witness:
  "condition_to_lambda (0::nat) (CInt 0x400000) (RBool True)
     = (condition_to_lambda 0 (CSet {0x400000}) (RBool False)
         :: compile_error + ((nat, unit) predicate \<times> int set option))
   \<and> (\<exists>pred. condition_to_lambda (0::nat) (CInt 0x400000) (RBool True)
                = Inr (pred, Some {0x400000})
        \<and> pred entry_state vex_world = (Inr (RSet {0x400000}), vex_world))"
proof -
  have a: "addr entry_state = 0x400000" by (simp add: entry_state_def)
  from int_condition_as_singleton [of "0::nat" "0x400000" "RBool True" "RBool False"]
  obtain pred :: "(nat, unit) predicate" where
    e: "condition_to_lambda (0::nat) (CInt 0x400000) (RBool True)
          = (condition_to_lambda 0 (CSet {0x400000}) (RBool False)
              :: compile_error + ((nat, unit) predicate \<times> int set option))"
    and c: "condition_to_lambda (0::nat) (CInt 0x400000) (RBool True) = Inr (pred, Some {0x400000})"
    and p: "\<forall>st w. addr st = 0x400000 \<longrightarrow> pred st w = (Inr (RSet {0x400000}), w) \<and> truthy (RSet {0x400000})"
    by blast
  from p a have h: "pred entry_state vex_world = (Inr (RSet {0x400000}), vex_world)" by blast
  show ?thesis
  proof (intro conjI exI)
    show "condition_to_lambda (0::nat) (CInt 0x400000) (RBool True)
            = (condition_to_lambda 0 (CSet {0x400000}) (RBool False)
                :: compile_error + ((nat, unit) predicate \<times> int set option))"
      by (rule e)
    show "condition_to_lambda (0::nat) (CInt 0x400000) (RBool True) = Inr (pred, Some {0x400000})"
      by (rule c)
    show "pred entry_state vex_world = (Inr (RSet {0x400000}), vex_world)"
      by (rule h)
  qed
qed

text \<open>
  C5.  Compiling \<^verbatim>\<open>None\<close> with default \<open>dflt\<close> gives the empty address set and a
  predicate that returns \<open>dflt\<close> on every state and in every world, and changes nothing;
  when the caller leaves the default out, the predicate returns \<^verbatim>\<open>False\<close>.
\<close>

theorem none_condition_constant:
  "(\<exists>pred. condition_to_lambda self CNone dflt = Inr (pred, Some {})
          \<and> (\<forall>st w. pred st w = (Inr dflt, w)))
   \<and> (\<exists>pred. condition_to_lambda_1 self CNone = Inr (pred, Some {})
          \<and> (\<forall>st w. pred st w = (Inr (RBool False), w)))"
  by (simp add: condition_to_lambda_1_def)

text \<open>
  C6.  Compiling a condition of none of the supported shapes raises
  \<^verbatim>\<open>AngrExplorationTechniqueError\<close>, with a message that contains the text of the
  condition's class; the result of the call is the error, and no pair is returned.
\<close>

theorem other_condition_raises:
  "condition_to_lambda self (COther cls) dflt =
     Inl (AngrExplorationTechniqueError
       (''ExplorationTechnique is unable to convert given type ('' @ cls @
        '') to a callable condition function.''))"
  by (simp add: unable_to_convert_def)

text \<open>
  C7.  Compiling a callable \<open>f\<close> returns \<open>f\<close> itself as the predicate and \<^verbatim>\<open>None\<close> as
  the address set.
\<close>

theorem callable_condition_unchanged:
  "condition_to_lambda self (CCallable f) dflt = Inr (f, None)"
  by simp



text \<open>
  It fails for a list condition as well, in two ways.  The caller holds the set the
  predicate reads: after compiling \<^verbatim>\<open>[0x400000]\<close>, the predicate answers \<open>{0x400000}\<close> on
  the state at that address, and the empty set on the same state once the caller has
  discarded the address from the returned set.
\<close>

lemma shared_set_mutation:
  "condition_to_lambda_obj field_block (0::nat) (CList [0x400000]) (RBool False) vex_objects
     = (Inr (entry_matcher, Some 0), entry_world)
   \<and> fst (entry_matcher entry_state entry_world) = Inr (RSet {0x400000})
   \<and> fst (entry_matcher entry_state (discard 0 0x400000 entry_world)) = Inr (RSet {})"
  by (simp add: sequence_to_lambda_obj_def new_set_def entry_matcher_def entry_world_def
      vex_objects_def condition_function_obj_def field_block_def entry_state_def discard_def)

text \<open>
  And the block is fetched anew at every check: with a \<^verbatim>\<open>state.block()\<close> that fails on
  every other call, the predicate over \<open>{0x400004}\<close> answers \<^verbatim>\<open>False\<close> and then
  \<open>{0x400004}\<close> on the same state.
\<close>

lemma flaky_block_changes_answer:
  "fst (condition_function_obj flaky_block 0 0 entry_state flaky_world) = Inr (RBool False)
   \<and> fst (condition_function_obj flaky_block 0 0 entry_state
            (snd (condition_function_obj flaky_block 0 0 entry_state flaky_world)))
       = Inr (RSet {0x400004})"
  by (simp add: condition_function_obj_def flaky_block_def flaky_world_def entry_state_def)






section \<open>Properties of the compatibility layer\<close>

lemma new_step_filter: "attr_filter (new_step attrs) = attr_filter attrs"
  by (simp add: new_step_def split: option.split)

lemma new_step_step_state: "attr_step_state (new_step attrs) = attr_step_state attrs"
  by (simp add: new_step_def split: option.split)

lemma new_step_state_ok:
  assumes "case attr_step_state attrs of None \<Rightarrow> True | Some ss \<Rightarrow> 2 \<le> length (argnames ss)"
  shows "\<exists>attrs'. new_step_state attrs = Inr attrs' \<and> attr_filter attrs' = attr_filter attrs"
  using assms by (auto simp: new_step_state_def args_1_def split: option.split)

text \<open>
  What \<^verbatim>\<open>ExplorationTechniqueMeta.__new__\<close> does when it is called.  A class named
  \<^verbatim>\<open>ExplorationTechniqueCompat\<close> is left as it is.
\<close>

lemma meta_new_compat_class:
  "meta_new ''ExplorationTechniqueCompat'' attrs = Inr attrs"
  by (simp add: meta_new_def)

text \<open>
  For a class with any other name, a \<^verbatim>\<open>filter\<close> of the old shape whose second parameter
  is not named \<^verbatim>\<open>simgr\<close> is replaced by the wrapper (provided a \<^verbatim>\<open>step_state\<close> entry, if
  there is one, has the two parameters that \<^verbatim>\<open>__new__\<close> indexes).  The wrapper calls the
  old function; when that returns \<^verbatim>\<open>None\<close> its outcome is that of
  \<^verbatim>\<open>simgr.filter(state, filter_func=filter_func)\<close>, run in the world the old function
  left; when it returns another value the wrapper returns that value, whatever the manager.
\<close>

lemma meta_new_wraps_legacy_filter:
  assumes "name \<noteq> ''ExplorationTechniqueCompat''"
    and "attr_filter attrs = Some func"
    and "args_1 func = Inr a" and "a \<noteq> ''simgr''"
    and "call func = FilterLegacy legacy"
    and "case attr_step_state attrs of None \<Rightarrow> True | Some ss \<Rightarrow> 2 \<le> length (argnames ss)"
  shows "\<exists>attrs'. meta_new name attrs = Inr attrs'
           \<and> attr_filter attrs' = Some (filter_factory func)
           \<and> call (filter_factory func) = FilterCurrent (filter_wrapped (call func))
           \<and> (\<forall>self simgr state filter_func w w'.
                 (legacy self state w = (Inr None, w') \<longrightarrow>
                    filter_wrapped (call func) self simgr state filter_func w
                      = simgr_filter simgr state filter_func w')
               \<and> (\<forall>r. legacy self state w = (Inr (Some r), w') \<longrightarrow>
                    filter_wrapped (call func) self simgr state filter_func w
                      = (Inr (Some r), w')))"
proof -
  let ?a1 = "(new_step attrs)\<lparr>attr_filter := Some (filter_factory func)\<rparr>"
  have f: "new_filter (new_step attrs) = Inr ?a1"
    using assms(2,3,4) by (simp add: new_filter_def new_step_filter)
  have "case attr_step_state ?a1 of None \<Rightarrow> True | Some ss \<Rightarrow> 2 \<le> length (argnames ss)"
    using assms(6) by (simp add: new_step_step_state)
  from new_step_state_ok [OF this]
  obtain attrs' where s: "new_step_state ?a1 = Inr attrs'"
    and k: "attr_filter attrs' = attr_filter ?a1" by blast
  have m: "meta_new name attrs = Inr attrs'"
    using assms(1) f s by (simp add: meta_new_def)
  have k': "attr_filter attrs' = Some (filter_factory func)" using k by simp
  have c: "call (filter_factory func) = FilterCurrent (filter_wrapped (call func))"
    by (simp add: filter_factory_def)
  have w: "\<forall>self simgr state filter_func w w'.
                 (legacy self state w = (Inr None, w') \<longrightarrow>
                    filter_wrapped (call func) self simgr state filter_func w
                      = simgr_filter simgr state filter_func w')
               \<and> (\<forall>r. legacy self state w = (Inr (Some r), w') \<longrightarrow>
                    filter_wrapped (call func) self simgr state filter_func w
                      = (Inr (Some r), w'))"
    unfolding assms(5) by (intro allI conjI impI) (simp_all add: filter_wrapped_def)
  from m k' c w show ?thesis by blast
qed

text \<open>
  C3.  The claim is that a technique's \<^verbatim>\<open>filter\<close> override of the old shape is wrapped by
  the adapter.  The code does not do that: the class statement of
  \<^verbatim>\<open>class DFS(ExplorationTechnique)\<close> with the override \<open>goal_filter\<close> leaves the
  namespace as written, so the class holds the old function and not its wrapper.  Called
  as a hook, the old function raises \<^verbatim>\<open>TypeError\<close> and the manager's default filter does
  not run, where the wrapper would have returned the default's decision.
\<close>

theorem legacy_filter_left_unwrapped:
  "class_statement ''DFS'' legacy_attrs = Inr legacy_attrs
   \<and> attr_filter legacy_attrs = Some legacy_filter
   \<and> call legacy_filter = FilterLegacy goal_filter
   \<and> legacy_filter \<noteq> filter_factory legacy_filter
   \<and> call_filter_4 (call legacy_filter) 0 plain_simgr entry_state None []
       = (Inl TypeError, [])
   \<and> call_filter_4 (call (filter_factory legacy_filter)) 0 plain_simgr entry_state None []
       = (Inr (Some ''active''), [''filter'', ''simgr.filter''])"
  by (simp add: class_statement_def type_new_def legacy_attrs_def legacy_filter_def
      filter_factory_def filter_wrapped_def goal_filter_def entry_state_def plain_simgr_def)


section \<open>Properties of the \<^verbatim>\<open>select\<close> procedure\<close>

lemma assert_null_iff:
  assumes "\<not> symbolic api x \<longrightarrow> (\<exists>v. solver_eval api s x = Inr v)"
  shows "assert_null api s x =
           (if \<not> symbolic api x \<and> solver_eval api s x = Inr 0 then Inr ()
            else Inl AssertionError)"
proof (cases "symbolic api x")
  case True
  then show ?thesis by (simp add: assert_null_def)
next
  case False
  with assms obtain v where "solver_eval api s x = Inr v" by blast
  with False show ?thesis by (simp add: assert_null_def)
qed

text \<open>
  C9.  With a solver that evaluates every expression that is not symbolic: when
  \<^verbatim>\<open>writefds\<close> or \<^verbatim>\<open>exceptfds\<close> is symbolic or evaluates to something other than 0,
  \<^verbatim>\<open>run\<close> raises \<^verbatim>\<open>AssertionError\<close> and the state is the one it started in, with no
  memory operation added to the log; when both are not symbolic and evaluate to 0, both
  assertions pass and \<^verbatim>\<open>run\<close> goes on with line 15.
\<close>

theorem run_asserts_guard:
  assumes "\<not> symbolic api writefds \<longrightarrow> (\<exists>v. solver_eval api (sim st) writefds = Inr v)"
    and "\<not> symbolic api exceptfds \<longrightarrow> (\<exists>v. solver_eval api (sim st) exceptfds = Inr v)"
  shows "(symbolic api writefds \<or> solver_eval api (sim st) writefds \<noteq> Inr 0
          \<or> symbolic api exceptfds \<or> solver_eval api (sim st) exceptfds \<noteq> Inr 0
            \<longrightarrow> run api arch nfds readfds writefds exceptfds timeout st = (Inl AssertionError, st))
       \<and> (\<not> symbolic api writefds \<and> solver_eval api (sim st) writefds = Inr 0
          \<and> \<not> symbolic api exceptfds \<and> solver_eval api (sim st) exceptfds = Inr 0
            \<longrightarrow> run_asserts api (sim st) writefds exceptfds = Inr ()
              \<and> run api arch nfds readfds writefds exceptfds timeout st
                  = run_body api arch nfds readfds st)"
proof -
  note w = assert_null_iff [OF assms(1)] and x = assert_null_iff [OF assms(2)]
  show ?thesis
    by (simp add: run_def run_asserts_def w x)
qed

text \<open>
  A call with a non-null \<^verbatim>\<open>writefds\<close>, a call with a symbolic \<^verbatim>\<open>exceptfds\<close>, and the
  two assertions on null pointers.
\<close>

theorem run_asserts_guard_witness:
  "run tiny_api x86 (BVV 4 32) (BVV 0x8000 32) (BVV 0x9000 32) (BVV 0 32) (BVV 0 32) tiny_start
     = (Inl AssertionError, tiny_start)
   \<and> run tiny_api x86 (BVV 4 32) (BVV 0x8000 32) (BVV 0 32) (Sym ''exceptfds'' 7 32) (BVV 0 32)
       tiny_start
     = (Inl AssertionError, tiny_start)
   \<and> run_asserts tiny_api (sim tiny_start) (BVV 0 32) (BVV 0 32) = Inr ()"
proof -
  have a: "run tiny_api x86 (BVV 4 32) (BVV 0x8000 32) (BVV 0x9000 32) (BVV 0 32) (BVV 0 32)
             tiny_start
     = (Inl AssertionError, tiny_start)"
    using run_asserts_guard
      [of tiny_api "BVV 0x9000 32" tiny_start "BVV 0 32" x86 "BVV 4 32" "BVV 0x8000 32" "BVV 0 32"]
    by (simp add: tiny_api_def)
  have b: "run tiny_api x86 (BVV 4 32) (BVV 0x8000 32) (BVV 0 32) (Sym ''exceptfds'' 7 32)
             (BVV 0 32) tiny_start
     = (Inl AssertionError, tiny_start)"
    using run_asserts_guard
      [of tiny_api "BVV 0 32" tiny_start "Sym ''exceptfds'' 7 32" x86 "BVV 4 32" "BVV 0x8000 32"
          "BVV 0 32"]
    by (simp add: tiny_api_def)
  have c: "run_asserts tiny_api (sim tiny_start) (BVV 0 32) (BVV 0 32) = Inr ()"
    using run_asserts_guard
      [of tiny_api "BVV 0 32" tiny_start "BVV 0 32" x86 "BVV 4 32" "BVV 0x8000 32" "BVV 0 32"]
    by (simp add: tiny_api_def)
  from a b c show ?thesis by blast
qed

text \<open>
  Whenever \<^verbatim>\<open>run\<close> returns, the value is the one built by lines 41 and 42: the
  concatenation of \<^verbatim>\<open>BVV(0, 1)\<close> with a symbol \<^verbatim>\<open>select_ret\<close> of 31 bits.
\<close>

lemma run_returns_retval:
  assumes "run api arch nfds readfds writefds exceptfds timeout st = (Inr v, st')"
  shows "\<exists>st3. run_retval api st3 = (v, st')"
proof -
  from assms have "run_body api arch nfds readfds st = (Inr v, st')"
    by (simp add: run_def split: sum.splits)
  then show ?thesis
    unfolding run_body_def
    by (auto split: sum.splits prod.splits)
qed

text \<open>With at most one descriptor and words of at least 8 bits, no loop runs and it returns.\<close>

lemma run_body_small_nfds:
  assumes "solver_eval api (sim st) nfds = Inr nfds_v"
    and "nfds_v \<le> 1" and "7 < bits arch"
  shows "run_body api arch nfds readfds st = (Inr (fst (run_retval api st)), snd (run_retval api st))"
proof -
  from assms have "nfds_v - 1 + 7 < bits arch" by simp
  moreover from assms have "0 < bits arch" by simp
  ultimately have "(nfds_v - 1 + 7) div bits arch \<le> 0"
    by (cases "0 \<le> nfds_v - 1 + 7") (simp_all add: div_pos_pos_trivial div_neg_pos_less0 less_imp_le)
  then have l: "[0 .. (nfds_v - 1 + 7) div bits arch - 1] = []" by simp
  from assms have u: "[0 .. nfds_v - 1 - 1] = []" by simp
  from assms have b: "bits arch \<noteq> 0" by simp
  show ?thesis
    using assms(1) l u b by (simp add: run_body_def floordiv_def split: prod.splits)
qed

text \<open>
  With 27 descriptors on 32-bit words, one word is loaded, its 26 bits are inspected and
  found clear, the word is stored back, and the value is returned.
\<close>

lemma run_27_fds:
  "run tiny_api x86 (BVV 27 32) (BVV 0x8000 32) (BVV 0 32) (BVV 0 32) (BVV 0 32) tiny_start
     = (Inr (Concat (BVV 0 1) (Sym ''select_ret'' 0 31)),
        \<lparr> sim = \<lparr> fresh = 1, memory = [(0x8000, BVV 0 32)] \<rparr>,
          mem_log = [Load (Add (BVV 0x8000 32) 0) 4, Store (Add (BVV 0x8000 32) 0) (BVV 0 32)] \<rparr>)"
  by code_simp

text \<open>
  The word count \<^verbatim>\<open>((nfds_v - 1) + 7) // arch_bits\<close> is 0 as long as
  \<^verbatim>\<open>nfds_v + 6 < arch_bits\<close>, so \<^verbatim>\<open>long_array\<close> is empty; from two descriptors on, the
  second loop runs and its first \<^verbatim>\<open>long_array[long_pos]\<close> raises \<^verbatim>\<open>IndexError\<close>.
\<close>

lemma run_body_index_error:
  assumes "solver_eval api (sim st) nfds = Inr nfds_v"
    and "2 \<le> nfds_v" and "nfds_v + 6 < bits arch"
  shows "run_body api arch nfds readfds st = (Inl IndexError, st)"
proof -
  from assms have b: "bits arch \<noteq> 0" by simp
  from assms have d: "(nfds_v - 1 + 7) div bits arch = 0" by simp
  from assms have u: "[0 .. nfds_v - 1 - 1] = 0 # [1 .. nfds_v - 2]"
    by (simp add: upto_rec1)
  have s: "set_bit api arch 0 [] st = (Inl IndexError, st)"
    using b by (simp add: set_bit_def floordiv_def pymod_def getitem_def list_index_def)
  show ?thesis
    using assms b d u s by (simp add: run_body_def floordiv_def)
qed

text \<open>
  C10.  The claim is that every call that passes the two assertions returns the 32-bit
  value made of a 0 bit and a fresh 31-bit symbol.  The code does not do that: a call that
  passes both assertions with \<^verbatim>\<open>2 \<le> nfds_v\<close> and \<^verbatim>\<open>nfds_v + 6 < arch_bits\<close> raises
  \<^verbatim>\<open>IndexError\<close> in the bit loop, with the state as it was, and returns no value.
\<close>

theorem run_index_error:
  assumes "run_asserts api (sim st) writefds exceptfds = Inr ()"
    and "solver_eval api (sim st) nfds = Inr nfds_v"
    and "2 \<le> nfds_v" and "nfds_v + 6 < bits arch"
  shows "run api arch nfds readfds writefds exceptfds timeout st = (Inl IndexError, st)"
  using assms(1) run_body_index_error [OF assms(2,3,4)]
  by (simp add: run_def)

text \<open>\<^verbatim>\<open>select(2, readfds, NULL, NULL, NULL)\<close> on a 32-bit architecture.\<close>

theorem run_two_fds_index_error:
  "run tiny_api x86 (BVV 2 32) (BVV 0x8000 32) (BVV 0 32) (BVV 0 32) (BVV 0 32) tiny_start
     = (Inl IndexError, tiny_start)"
proof -
  have a: "run_asserts tiny_api (sim tiny_start) (BVV 0 32) (BVV 0 32) = Inr ()"
    by (simp add: run_asserts_def assert_null_def tiny_api_def)
  have e: "solver_eval tiny_api (sim tiny_start) (BVV 2 32) = Inr 2"
    by (simp add: tiny_api_def)
  have b: "(2::int) + 6 < bits x86" by (simp add: x86_def)
  from run_index_error [OF a e _ b] show ?thesis by simp
qed

end
